theory Spec2Isabelle
  imports Main "HOL-Library.Sublist" "HOL-Library.Log_Nat" "HOL-Library.Multiset"
begin

section \<open>JavaScript strings\<close>

text \<open>
  A JavaScript string is a sequence of UTF-16 code units. The skill names (the vocabulary
  of the server, the skills of resumes and of jobs) are modelled as strings of code units
  below 256 (ASCII and Latin-1), one \<^typ>\<open>char\<close> per code unit; the vocabulary is plain
  ASCII. On these units \<^verbatim>\<open>String.prototype.toLowerCase\<close> works unit by unit: it maps
  \<^verbatim>\<open>A..Z\<close> (65..90) and the Latin-1 capitals (192..222 except the multiplication sign
  215) to the unit 32 above, and leaves every other unit alone.
\<close>

definition toLowerCase_unit :: "char \<Rightarrow> char" where
  "toLowerCase_unit c =
     (let n = (of_char c :: nat)
      in if (65 \<le> n \<and> n \<le> 90) \<or> (192 \<le> n \<and> n \<le> 222 \<and> n \<noteq> 215)
         then char_of (n + 32) else c)"

definition toLowerCase :: "string \<Rightarrow> string" where
  "toLowerCase s = map toLowerCase_unit s"

text \<open>
  The text a job is posted with is arbitrary: a list of code units, each a number (below
  65536 in JavaScript; nothing here depends on that bound). \<open>units\<close> reads a string of
  units below 256 as such a list.
\<close>

type_synonym code_unit = nat

definition units :: "string \<Rightarrow> code_unit list" where
  "units s = map of_char s"

text \<open>
  \<^verbatim>\<open>toLowerCase\<close> on an arbitrary text. A unit below 256 becomes its lower-case unit,
  whatever stands around it. The lower-case form of the other units comes from the Unicode
  tables of the platform, which are no part of the repository: the parameter \<open>unicode\<close>
  gives, for such a unit and the units before and after it, the units it contributes to
  the result (one unit as a rule, two for U+0130, and depending on the neighbours for the
  capital sigma and for surrogate pairs).
\<close>

type_synonym unicode_lower = "code_unit list \<Rightarrow> code_unit \<Rightarrow> code_unit list \<Rightarrow> code_unit list"

fun toLowerCase_from :: "unicode_lower \<Rightarrow> code_unit list \<Rightarrow> code_unit list \<Rightarrow> code_unit list" where
  "toLowerCase_from unicode before [] = []"
| "toLowerCase_from unicode before (u # after) =
     (if u < 256 then [of_char (toLowerCase_unit (char_of u))] else unicode before u after)
     @ toLowerCase_from unicode (before @ [u]) after"

definition toLowerCase_text :: "unicode_lower \<Rightarrow> code_unit list \<Rightarrow> code_unit list" where
  "toLowerCase_text unicode text = toLowerCase_from unicode [] text"

text \<open>
  \<^verbatim>\<open>String.prototype.includes\<close>: does the search string occur at some position of the
  text, as a contiguous run of code units. The scan tries every start position in turn.
\<close>

fun String_includes :: "'a list \<Rightarrow> 'a list \<Rightarrow> bool" where
  "String_includes [] searchString = (searchString = [])"
| "String_includes (c # cs) searchString =
     (prefix searchString (c # cs) \<or> String_includes cs searchString)"

text \<open>\<^verbatim>\<open>Array.prototype.includes\<close> on an array of strings: membership by string equality.\<close>

definition Array_includes :: "string list \<Rightarrow> string \<Rightarrow> bool" where
  "Array_includes xs x = (x \<in> set xs)"

section \<open>JavaScript numbers\<close>

text \<open>
  A JavaScript Number is an IEEE-754 binary64 value. The finite ones are rationals, and
  every arithmetic operation returns the exact result rounded to the nearest binary64
  value, ties to the even significand. \<open>double\<close> is that rounding on the normal range
  (53-bit significands); the match scores, their products with 100 and their differences
  all lie there or are zero. Infinities, NaN and the sign of zero do not arise: the only
  division of the server is guarded against a zero divisor.
\<close>

definition roundTiesToEven :: "rat \<Rightarrow> int" where
  "roundTiesToEven x =
     (let n = \<lfloor>x\<rfloor>; d = x - of_int n
      in if d < 1 / 2 then n else if 1 / 2 < d then n + 1
         else if even n then n else n + 1)"

text \<open>The binary exponent of a positive rational: the \<open>e\<close> with \<open>2^e \<le> x < 2^(e+1)\<close>.\<close>

definition exponent :: "rat \<Rightarrow> int" where
  "exponent x =
     (let (a, b) = quotient_of x; d = bitlen a - bitlen b
      in if 2 powi d \<le> x then d else d - 1)"

definition double :: "rat \<Rightarrow> rat" where
  "double x =
     (if x = 0 then 0
      else let u = 2 powi (exponent \<bar>x\<bar> - 52)
           in sgn x * of_int (roundTiesToEven (\<bar>x\<bar> / u)) * u)"

definition Number_div :: "rat \<Rightarrow> rat \<Rightarrow> rat" where
  "Number_div x y = double (x / y)"

definition Number_mul :: "rat \<Rightarrow> rat \<Rightarrow> rat" where
  "Number_mul x y = double (x * y)"

definition Number_sub :: "rat \<Rightarrow> rat \<Rightarrow> rat" where
  "Number_sub x y = double (x - y)"

text \<open>\<^verbatim>\<open>Math.round\<close>: the nearest integer, a tie going to the integer above.\<close>

definition Math_round :: "rat \<Rightarrow> int" where
  "Math_round x = \<lfloor>x + 1 / 2\<rfloor>"

text \<open>
  \<^verbatim>\<open>Array.prototype.sort(compareFn)\<close> is a stable sort: \<open>a\<close> goes behind \<open>b\<close> only
  when \<open>compareFn(a, b) > 0\<close>, and elements that compare equal keep their order. Here
  as the stable insertion sort, which returns the one array every stable sort returns for
  a comparison function that is a consistent ordering.
\<close>

fun Array_sort_insert :: "('a \<Rightarrow> 'a \<Rightarrow> rat) \<Rightarrow> 'a \<Rightarrow> 'a list \<Rightarrow> 'a list" where
  "Array_sort_insert compareFn a [] = [a]"
| "Array_sort_insert compareFn a (b # bs) =
     (if 0 < compareFn a b then b # Array_sort_insert compareFn a bs else a # b # bs)"

definition Array_sort :: "('a \<Rightarrow> 'a \<Rightarrow> rat) \<Rightarrow> 'a list \<Rightarrow> 'a list" where
  "Array_sort compareFn xs = foldr (Array_sort_insert compareFn) xs []"

section \<open>The stored documents\<close>

type_synonym ObjectId = string

text \<open>
  \<open>parsedResume\<close> is a schema-free object: any of its fields can be missing, so
  \<open>skills\<close> is optional. A missing \<open>parsedResume\<close> itself is \<open>None\<close> in the profile.
\<close>

record parsedData =
  skills :: "string list option"
  experience :: "string list"
  education :: "string list"
  summary :: string

record profile =
  skills :: "string list"
  experience :: "string list"
  education :: "string list"
  resumePath :: "string option"
  parsedResume :: "parsedData option"

record user =
  name :: string
  email :: string
  password :: string
  role :: string
  profile :: profile

record job =
  oid :: ObjectId
  title :: string
  company :: string
  location :: string
  salary :: string
  jobType :: string
  description :: string
  requirements :: string
  companyWebsite :: "string option"
  skills :: "string list"
  postedBy :: "string option"
  postedAt :: nat

text \<open>
  A recommendation is the object \<^verbatim>\<open>{...job.toObject(), matchScore, matchPercentage}\<close>:
  the fields of the job, then the two new ones.
\<close>

record recommendation = job +
  matchScore :: rat
  matchPercentage :: int

text \<open>
  The two collections the recommendation route reads, and the queries issued so far
  (each \<^verbatim>\<open>await\<close> on a model appends one).
\<close>

datatype query = User_findById_query ObjectId | Job_find_query

record database =
  users :: "ObjectId \<rightharpoonup> user"
  jobs :: "job list"
  queries :: "query list"

definition User_findById :: "ObjectId \<Rightarrow> database \<Rightarrow> user option \<times> database" where
  "User_findById uid db = (users db uid, db\<lparr>queries := queries db @ [User_findById_query uid]\<rparr>)"

definition Job_find :: "database \<Rightarrow> job list \<times> database" where
  "Job_find db = (jobs db, db\<lparr>queries := queries db @ [Job_find_query]\<rparr>)"

text \<open>
  The JSON answers of the route: the HTTP status and the keys \<^verbatim>\<open>success\<close>,
  \<^verbatim>\<open>recommendations\<close>, \<^verbatim>\<open>userSkills\<close> and \<^verbatim>\<open>message\<close> of the body (\<open>None\<close> for a key
  the answer does not have).
\<close>

record body =
  res_success :: bool
  res_recommendations :: "recommendation list option"
  res_userSkills :: "string list option"
  res_message :: "string option"

record response =
  status :: nat
  body :: body

section \<open>Skill extraction and match score\<close>

definition commonSkills :: "string list" where
  "commonSkills =
     [''JavaScript'', ''Python'', ''Java'', ''React'', ''Node.js'', ''MongoDB'', ''SQL'',
      ''AWS'', ''Docker'', ''Kubernetes'', ''Git'', ''HTML'', ''CSS'', ''TypeScript'',
      ''Angular'', ''Vue.js'', ''Express'', ''Django'', ''Flask'', ''Spring Boot'',
      ''PostgreSQL'', ''MySQL'', ''Redis'', ''GraphQL'', ''REST API'', ''Machine Learning'',
      ''Data Science'', ''DevOps'', ''CI/CD'', ''Agile'', ''Scrum'', ''Project Management'']"

text \<open>The text is arbitrary; the skill names of the vocabulary are strings of units below 256.\<close>

definition extractSkillsFromText :: "unicode_lower \<Rightarrow> code_unit list \<Rightarrow> string list" where
  "extractSkillsFromText unicode text =
     (let foundSkills =
            filter (\<lambda>skill. String_includes (toLowerCase_text unicode text)
                              (units (toLowerCase skill)))
              commonSkills
      in foundSkills)"

definition calculateMatchScore :: "string list \<Rightarrow> string list \<Rightarrow> rat" where
  "calculateMatchScore userSkills jobSkills =
     (if length userSkills = 0 \<or> length jobSkills = 0 then 0
      else let userSkillsLower = map toLowerCase userSkills;
               jobSkillsLower = map toLowerCase jobSkills;
               matchingSkills = filter (\<lambda>skill. Array_includes jobSkillsLower skill) userSkillsLower
           in Number_div (of_nat (length matchingSkills))
                (of_nat (max (length userSkills) (length jobSkills))))"

section \<open>The recommendation route\<close>

text \<open>The array \<^verbatim>\<open>recommendations\<close> of the route: every job, annotated.\<close>

definition recommendations :: "string list \<Rightarrow> job list \<Rightarrow> recommendation list" where
  "recommendations userSkills allJobs =
     map (\<lambda>job. let score = calculateMatchScore userSkills (job.skills job)
               in job.extend job
                    (recommendation.fields score (Math_round (Number_mul score 100))))
       allJobs"

text \<open>The literal \<^verbatim>\<open>0.1\<close> is the binary64 value nearest to one tenth.\<close>

definition topRecommendations :: "string list \<Rightarrow> job list \<Rightarrow> recommendation list" where
  "topRecommendations userSkills allJobs =
     take 10
       (Array_sort (\<lambda>a b. Number_sub (matchScore b) (matchScore a))
          (filter (\<lambda>job. double (1 / 10) < matchScore job)
             (recommendations userSkills allJobs)))"

text \<open>
  The handler of \<^verbatim>\<open>GET /api/job-recommendations\<close>, after the token check has set
  \<^verbatim>\<open>req.user.id\<close>. When no user has that id, \<^verbatim>\<open>user\<close> is null, reading
  \<^verbatim>\<open>user.profile\<close> throws and the \<^verbatim>\<open>catch\<close> answers with status 500.
\<close>

definition job_recommendations :: "ObjectId \<Rightarrow> database \<Rightarrow> response \<times> database" where
  "job_recommendations uid db =
     (let (found, db1) = User_findById uid db
      in case found of
           None \<Rightarrow>
             (\<lparr>status = 500,
               body = \<lparr>res_success = False, res_recommendations = None,
                        res_userSkills = None,
                        res_message = Some ''Error getting recommendations''\<rparr>\<rparr>, db1)
         | Some user \<Rightarrow>
             (case parsedResume (profile user) of
                None \<Rightarrow>
                  (\<lparr>status = 200,
                    body = \<lparr>res_success = True, res_recommendations = Some [],
                             res_userSkills = None,
                             res_message = Some ''No resume uploaded yet''\<rparr>\<rparr>, db1)
              | Some parsed \<Rightarrow>
                  (let userSkills = (case parsedData.skills parsed of None \<Rightarrow> [] | Some s \<Rightarrow> s);
                       (allJobs, db2) = Job_find db1
                   in (\<lparr>status = 200,
                        body = \<lparr>res_success = True,
                                 res_recommendations = Some (topRecommendations userSkills allJobs),
                                 res_userSkills = Some userSkills, res_message = None\<rparr>\<rparr>, db2))))"

section \<open>The data the server itself stores\<close>

text \<open>
  The resume upload route stores the same parsed data for every resume (the parser is a
  stub), and the seeding route stores six sample jobs. The store assigns the identifiers
  and the posting dates of the jobs on insertion; they are fixed here to \<open>1\<close> to \<open>6\<close>
  and to \<open>0\<close>.
\<close>

definition mock_parsedData :: parsedData where
  "mock_parsedData =
     \<lparr>parsedData.skills = Some [''JavaScript'', ''React'', ''Node.js'', ''MongoDB'', ''Express''],
      parsedData.experience = [''Software Engineer at TechCorp'', ''Frontend Developer at Startup''],
      parsedData.education = [''Bachelor of Computer Science''],
      summary = ''Experienced software developer with expertise in modern web technologies.''\<rparr>"

text \<open>
  The signup route creates the user with an empty profile; the upload route then sets
  the resume path, the parsed resume and the skills of the profile.
\<close>

definition new_User :: "string \<Rightarrow> string \<Rightarrow> string \<Rightarrow> string \<Rightarrow> user" where
  "new_User name' email' hashedPassword role' =
     \<lparr>name = name', email = email', password = hashedPassword, role = role',
      profile = \<lparr>profile.skills = [], profile.experience = [], profile.education = [],
                 resumePath = None, parsedResume = None\<rparr>\<rparr>"

definition upload_resume_update :: "string \<Rightarrow> user \<Rightarrow> user" where
  "upload_resume_update filePath u =
     u\<lparr>profile := (profile u)
          \<lparr>resumePath := Some filePath,
           parsedResume := Some mock_parsedData,
           profile.skills := (case parsedData.skills mock_parsedData of
                                None \<Rightarrow> [] | Some s \<Rightarrow> s)\<rparr>\<rparr>"

definition sampleJobs :: "job list" where
  "sampleJobs =
     [\<lparr>oid = ''1'', title = ''Frontend Developer'', company = ''TechCorp Inc.'',
       location = ''Remote'', salary = ''$80,000 - $120,000'', jobType = ''Full Time'',
       description = ''We are looking for a skilled Frontend Developer to join our team. You will be responsible for building user-friendly web applications using modern technologies.'',
       requirements = ''Experience with React, JavaScript, HTML, CSS. Knowledge of TypeScript and modern build tools is a plus.'',
       companyWebsite = None,
       skills = [''React'', ''JavaScript'', ''HTML'', ''CSS'', ''TypeScript''],
       postedBy = None, postedAt = 0\<rparr>,
      \<lparr>oid = ''2'', title = ''Backend Developer'', company = ''StartupXYZ'',
       location = ''San Francisco, CA'', salary = ''$90,000 - $130,000'', jobType = ''Full Time'',
       description = ''Join our fast-growing startup as a Backend Developer. You will work on scalable server-side applications and APIs.'',
       requirements = ''Strong experience with Node.js, MongoDB, Express. Knowledge of AWS and Docker is preferred.'',
       companyWebsite = None,
       skills = [''Node.js'', ''MongoDB'', ''Express'', ''AWS'', ''Docker''],
       postedBy = None, postedAt = 0\<rparr>,
      \<lparr>oid = ''3'', title = ''Full Stack Developer'', company = ''Digital Solutions'',
       location = ''New York, NY'', salary = ''$100,000 - $150,000'', jobType = ''Full Time'',
       description = ''We need a Full Stack Developer who can work on both frontend and backend development. Experience with modern web technologies required.'',
       requirements = ''Proficient in React, Node.js, MongoDB, Express. Experience with Git and agile methodologies.'',
       companyWebsite = None,
       skills = [''React'', ''Node.js'', ''MongoDB'', ''Express'', ''Git''],
       postedBy = None, postedAt = 0\<rparr>,
      \<lparr>oid = ''4'', title = ''DevOps Engineer'', company = ''CloudTech'',
       location = ''Austin, TX'', salary = ''$110,000 - $160,000'', jobType = ''Full Time'',
       description = ''Join our DevOps team to help build and maintain our cloud infrastructure. Experience with CI/CD pipelines required.'',
       requirements = ''Experience with AWS, Docker, Kubernetes, CI/CD. Knowledge of monitoring and logging tools.'',
       companyWebsite = None,
       skills = [''AWS'', ''Docker'', ''Kubernetes'', ''CI/CD'', ''DevOps''],
       postedBy = None, postedAt = 0\<rparr>,
      \<lparr>oid = ''5'', title = ''Data Scientist'', company = ''Analytics Pro'',
       location = ''Boston, MA'', salary = ''$120,000 - $180,000'', jobType = ''Full Time'',
       description = ''We are seeking a Data Scientist to help us extract insights from large datasets and build machine learning models.'',
       requirements = ''Experience with Python, Machine Learning, SQL. Knowledge of statistical analysis and data visualization.'',
       companyWebsite = None,
       skills = [''Python'', ''Machine Learning'', ''SQL'', ''Data Science''],
       postedBy = None, postedAt = 0\<rparr>,
      \<lparr>oid = ''6'', title = ''UI/UX Designer'', company = ''Creative Studio'',
       location = ''Los Angeles, CA'', salary = ''$70,000 - $110,000'', jobType = ''Full Time'',
       description = ''Join our creative team as a UI/UX Designer. You will be responsible for creating beautiful and functional user interfaces.'',
       requirements = ''Experience with design tools like Figma, Sketch. Knowledge of user research and prototyping.'',
       companyWebsite = None,
       skills = [''Figma'', ''UI/UX'', ''Design'', ''Prototyping''],
       postedBy = None, postedAt = 0\<rparr>]"


section \<open>Notions of the specification\<close>






section \<open>Evaluating the string functions\<close>

lemmas lower_eval = toLowerCase_def toLowerCase_unit_def char_of_def bit_Suc_0_iff

lemma lower_commonSkills:
  "map toLowerCase commonSkills =
     [''javascript'', ''python'', ''java'', ''react'', ''node.js'', ''mongodb'', ''sql'',
      ''aws'', ''docker'', ''kubernetes'', ''git'', ''html'', ''css'', ''typescript'',
      ''angular'', ''vue.js'', ''express'', ''django'', ''flask'', ''spring boot'',
      ''postgresql'', ''mysql'', ''redis'', ''graphql'', ''rest api'', ''machine learning'',
      ''data science'', ''devops'', ''ci/cd'', ''agile'', ''scrum'', ''project management'']"
  by (simp add: commonSkills_def lower_eval)

section \<open>Lower case and the table of letters\<close>








section \<open>Skill extraction\<close>

lemma String_includes_sublist: "String_includes t s \<longleftrightarrow> sublist s t"
  by (induction t) (simp_all add: sublist_Cons_right)

lemma sublist_map_piece:
  "sublist ys (map g t) \<longleftrightarrow> (\<exists>piece. sublist piece t \<and> map g piece = ys)"
proof
  assume "sublist ys (map g t)"
  then obtain ps ss where "map g t = ps @ ys @ ss"
    by (auto simp: sublist_def)
  then obtain p r where t: "t = p @ r" and r: "ys @ ss = map g r"
    by (auto simp: map_eq_append_conv)
  from r obtain piece v where "r = piece @ v" and "map g piece = ys"
    by (auto simp: append_eq_map_conv)
  with t have "sublist piece t" by (auto simp: sublist_def)
  with \<open>map g piece = ys\<close> show "\<exists>piece. sublist piece t \<and> map g piece = ys" by blast
next
  assume "\<exists>piece. sublist piece t \<and> map g piece = ys"
  then obtain piece where p: "sublist piece t" and eq: "map g piece = ys" by blast
  from p obtain ps ss where "t = ps @ piece @ ss" by (auto simp: sublist_def)
  then have "map g t = map g ps @ map g piece @ map g ss" by simp
  then show "sublist ys (map g t)" unfolding eq sublist_def by blast
qed


lemma of_char_less_256: "(of_char c :: nat) < 256"
proof -
  have "(of_char c :: nat) mod 256 < 256" by simp
  then show ?thesis by (simp only: of_char_mod_256)
qed

lemma toLowerCase_from_latin1:
  "\<forall>u\<in>set t. u < 256 \<Longrightarrow>
     toLowerCase_from unicode before t = map (\<lambda>u. of_char (toLowerCase_unit (char_of u))) t"
  by (induction t arbitrary: before) simp_all

lemma toLowerCase_text_units: "toLowerCase_text unicode (units s) = units (toLowerCase s)"
proof -
  have "\<forall>u\<in>set (units s). u < 256" by (auto simp: units_def of_char_less_256)
  then show ?thesis
    by (simp add: toLowerCase_text_def toLowerCase_from_latin1)
       (simp add: units_def toLowerCase_def)
qed

lemma sublist_units: "sublist (units a) (units b) \<longleftrightarrow> sublist a b"
proof -
  have "map of_char piece = (map of_char a :: nat list) \<longleftrightarrow> piece = a" for piece
    by (simp add: inj_map_eq_map inj_of_char)
  then show ?thesis
    unfolding units_def sublist_map_piece by simp
qed









lemma filter_via_zip:
  "filter (\<lambda>x. Q (f x)) xs = map fst (filter (\<lambda>p. Q (snd p)) (zip xs (map f xs)))"
  by (induction xs) auto

lemma extractSkills_zip:
  "extractSkillsFromText unicode (units s) =
     map fst (filter (\<lambda>p. String_includes (toLowerCase s) (snd p))
        (zip commonSkills (map toLowerCase commonSkills)))"
proof -
  have "extractSkillsFromText unicode (units s)
          = filter (\<lambda>skill. String_includes (toLowerCase s) (toLowerCase skill)) commonSkills"
    by (simp add: extractSkillsFromText_def String_includes_sublist toLowerCase_text_units
        sublist_units)
  also have "\<dots> = map fst (filter (\<lambda>p. String_includes (toLowerCase s) (snd p))
        (zip commonSkills (map toLowerCase commonSkills)))"
    by (rule filter_via_zip)
  finally show ?thesis .
qed






text \<open>
  C8. Matching is plain containment, with no word boundary: the text \<^verbatim>\<open>JavaScript\<close>
  yields both JavaScript and Java, and the text \<^verbatim>\<open>PostgreSQL\<close> yields both SQL and
  PostgreSQL (in the order of the vocabulary).
\<close>

theorem extractSkills_inside_longer_word:
  "extractSkillsFromText unicode (units ''JavaScript'') = [''JavaScript'', ''Java'']
   \<and> extractSkillsFromText unicode (units ''PostgreSQL'') = [''SQL'', ''PostgreSQL'']"
proof -
  have "toLowerCase ''JavaScript'' = ''javascript''" and "toLowerCase ''PostgreSQL'' = ''postgresql''"
    by (simp_all add: lower_eval)
  then show ?thesis
    unfolding extractSkills_zip lower_commonSkills by (simp add: commonSkills_def)
qed

section \<open>Rounding to binary64\<close>

lemma bitlen_powi:
  assumes "0 < a"
  shows "2 powi (bitlen a - 1) \<le> (of_int a :: rat)" and "(of_int a :: rat) < 2 powi bitlen a"
proof -
  from assms have b: "2 ^ nat (bitlen a - 1) \<le> a" "a < 2 ^ nat (bitlen a)"
    using bitlen_bounds [of a] by auto
  from assms have pos: "1 \<le> bitlen a"
    by (simp add: bitlen_alt_def)
  from b(1) have "(of_int (2 ^ nat (bitlen a - 1)) :: rat) \<le> of_int a"
    by (simp only: of_int_le_iff)
  with pos show "2 powi (bitlen a - 1) \<le> (of_int a :: rat)"
    by (simp add: power_int_def)
  from b(2) have "(of_int a :: rat) < of_int (2 ^ nat (bitlen a))"
    by (simp only: of_int_less_iff)
  with pos show "(of_int a :: rat) < 2 powi bitlen a"
    by (simp add: power_int_def)
qed

lemma exponent_bounds:
  assumes "0 < x"
  shows "2 powi exponent x \<le> x" and "x < 2 powi (exponent x + 1)"
proof -
  obtain a b where q: "quotient_of x = (a, b)" by (cases "quotient_of x")
  then have bpos: "0 < b" and x: "x = of_int a / of_int b"
    by (auto dest: quotient_of_denom_pos quotient_of_div)
  with assms have apos: "0 < a"
    by (simp add: zero_less_divide_iff)
  define d where "d = bitlen a - bitlen b"
  have two: "(2::rat) \<noteq> 0" by simp
  have up: "x < 2 powi (d + 1)"
  proof -
    have "of_int a < (2::rat) powi bitlen a" using apos by (rule bitlen_powi)
    moreover have "(2::rat) powi (bitlen b - 1) \<le> of_int b" using bpos by (rule bitlen_powi)
    moreover have "(0::rat) < 2 powi (bitlen b - 1)" by simp
    ultimately have "of_int a / of_int b < (2::rat) powi bitlen a / 2 powi (bitlen b - 1)"
      using bpos apos by (intro frac_less) auto
    also have "\<dots> = 2 powi (d + 1)"
      unfolding d_def by (simp add: power_int_diff [symmetric] algebra_simps)
    finally show ?thesis by (simp add: x)
  qed
  have low: "2 powi (d - 1) \<le> x"
  proof -
    have "(2::rat) powi (bitlen a - 1) \<le> of_int a" using apos by (rule bitlen_powi)
    moreover have "of_int b < (2::rat) powi bitlen b" using bpos by (rule bitlen_powi)
    moreover have "(0::rat) < 2 powi (bitlen a - 1)" by simp
    ultimately have "(2::rat) powi (bitlen a - 1) / 2 powi bitlen b \<le> of_int a / of_int b"
      using bpos apos by (intro frac_le) auto
    moreover have "(2::rat) powi (bitlen a - 1) / 2 powi bitlen b = 2 powi (d - 1)"
      unfolding d_def by (simp add: power_int_diff [symmetric] algebra_simps)
    ultimately show ?thesis by (simp add: x)
  qed
  have e: "exponent x = (if 2 powi d \<le> x then d else d - 1)"
    by (simp add: exponent_def q d_def Let_def)
  show "2 powi exponent x \<le> x" using low by (simp add: e)
  show "x < 2 powi (exponent x + 1)" using up by (simp add: e not_le)
qed

lemma roundTiesToEven_le:
  assumes "x \<le> of_int k"
  shows "roundTiesToEven x \<le> k"
proof (cases "\<lfloor>x\<rfloor> = k")
  case True
  with assms have "x = of_int \<lfloor>x\<rfloor>"
    using of_int_floor_le [of x] by simp
  then have "x - of_int \<lfloor>x\<rfloor> = 0" by simp
  then show ?thesis
    unfolding roundTiesToEven_def Let_def using True by simp
next
  case False
  moreover from assms have "\<lfloor>x\<rfloor> \<le> k" by (simp add: floor_le_iff)
  ultimately have "\<lfloor>x\<rfloor> + 1 \<le> k" by simp
  then show ?thesis
    unfolding roundTiesToEven_def Let_def by simp
qed

lemma roundTiesToEven_ge:
  assumes "of_int k \<le> x"
  shows "k \<le> roundTiesToEven x"
proof -
  from assms have "k \<le> \<lfloor>x\<rfloor>" by (simp add: le_floor_iff)
  then show ?thesis
    unfolding roundTiesToEven_def Let_def by simp
qed

lemma double_significand:
  assumes "0 < x"
  defines "u \<equiv> 2 powi (exponent x - 52)"
  defines "k \<equiv> roundTiesToEven (x / u)"
  shows "double x = of_int k * u" and "2 ^ 52 \<le> k" and "k \<le> 2 ^ 53"
proof -
  have upos: "0 < u" by (simp add: u_def)
  from assms(1) show "double x = of_int k * u"
    by (simp add: double_def Let_def u_def k_def)
  have "2 powi exponent x / u = 2 powi 52"
    unfolding u_def by (simp add: power_int_diff [symmetric])
  moreover have "2 powi exponent x / u \<le> x / u"
    using exponent_bounds(1) [OF assms(1)] upos by (simp add: divide_right_mono)
  ultimately have "of_int (2 ^ 52) \<le> x / u" by simp
  then show "2 ^ 52 \<le> k" unfolding k_def by (rule roundTiesToEven_ge)
  have "2 powi (exponent x + 1) / u = 2 powi 53"
    unfolding u_def by (simp add: power_int_diff [symmetric])
  moreover have "x / u \<le> 2 powi (exponent x + 1) / u"
    using exponent_bounds(2) [OF assms(1)] upos by (simp add: divide_right_mono)
  ultimately have "x / u \<le> of_int (2 ^ 53)" by simp
  then show "k \<le> 2 ^ 53" unfolding k_def by (rule roundTiesToEven_le)
qed

lemma double_pos: "0 < x \<Longrightarrow> 0 < double x"
  using double_significand [of x] by (simp add: zero_less_mult_iff)

lemma double_minus: "double (- x) = - double x"
  by (simp add: double_def Let_def)

lemma double_neg: "x < 0 \<Longrightarrow> double x < 0"
  using double_pos [of "- x"] by (simp add: double_minus)

lemma double_pos_iff: "0 < double x \<longleftrightarrow> 0 < x"
proof (cases "x = 0")
  case True
  then show ?thesis by (simp add: double_def)
next
  case False
  then consider "0 < x" | "x < 0" by linarith
  then show ?thesis
  proof cases
    case 1
    then show ?thesis by (simp add: double_pos)
  next
    case 2
    then show ?thesis using double_neg [of x] by simp
  qed
qed

lemma exponent_negative:
  assumes "0 < x" and "x < 1"
  shows "exponent x \<le> - 1"
proof (rule ccontr)
  assume "\<not> exponent x \<le> - 1"
  then have "0 \<le> exponent x" by simp
  then have "(1::rat) \<le> 2 powi exponent x"
    by (simp add: power_int_def)
  with exponent_bounds(1) [OF assms(1)] assms(2) show False by simp
qed

lemma double_one: "double 1 = 1"
  by code_simp

lemma double_below_two_powi:
  assumes "0 < x"
  shows "double x \<le> 2 powi (exponent x + 1)"
proof -
  define u :: rat where "u = 2 powi (exponent x - 52)"
  have "double x = of_int (roundTiesToEven (x / u)) * u" and "roundTiesToEven (x / u) \<le> 2 ^ 53"
    unfolding u_def using double_significand [OF assms] by simp_all
  moreover have "0 < u" by (simp add: u_def)
  ultimately have "double x \<le> of_int (2 ^ 53) * u"
    by (simp only: of_int_le_iff mult_le_cancel_right_pos)
  also have "of_int (2 ^ 53) = (2::rat) powi 53" by simp
  also have "(2::rat) powi 53 * u = 2 powi (53 + (exponent x - 52))"
    unfolding u_def by (rule power_int_add [symmetric]) simp
  also have "53 + (exponent x - 52) = exponent x + 1" by simp
  finally show ?thesis .
qed

lemma double_le_one:
  assumes "0 \<le> x" and "x \<le> 1"
  shows "double x \<le> 1"
proof -
  consider "x = 0" | "x = 1" | "0 < x" "x < 1" using assms by linarith
  then show ?thesis
  proof cases
    case 1
    then show ?thesis by (simp add: double_def)
  next
    case 2
    then show ?thesis by (simp add: double_one)
  next
    case 3
    then have "exponent x + 1 \<le> 0" using exponent_negative [of x] by simp
    then have "(2::rat) powi (exponent x + 1) \<le> 2 powi 0"
      by (intro power_int_increasing) simp_all
    with double_below_two_powi [OF 3(1)] show ?thesis by simp
  qed
qed

lemma double_nonneg: "0 \<le> x \<Longrightarrow> 0 \<le> double x"
  using double_pos [of x] by (cases "x = 0") (simp_all add: double_def less_imp_le)

text \<open>Below the largest binary64 value under 1 nothing rounds up to 1.\<close>

lemma double_less_one:
  assumes "0 < x" and "x \<le> 1 - 1 / 2 ^ 53"
  shows "double x < 1"
proof (cases "exponent x = - 1")
  case True
  define P :: rat where "P = 2 ^ 53"
  have P: "0 < P" by (simp add: P_def)
  define u :: rat where "u = 2 powi (exponent x - 52)"
  have "u = 2 powi (- 53)" by (simp add: u_def True)
  then have u: "u = 1 / P" by (simp add: P_def power_int_minus_divide)
  have d: "double x = of_int (roundTiesToEven (x / u)) * u"
    unfolding u_def using double_significand [OF assms(1)] by simp
  from assms(2) have "x \<le> 1 - 1 / P" by (simp add: P_def)
  with P have "x * P \<le> P - 1" by (simp add: field_simps)
  moreover have "P - 1 = of_int (2 ^ 53 - 1)" by (simp add: P_def)
  ultimately have "x / u \<le> of_int (2 ^ 53 - 1)" by (simp add: u)
  then have "roundTiesToEven (x / u) \<le> 2 ^ 53 - 1" by (rule roundTiesToEven_le)
  then have "(of_int (roundTiesToEven (x / u)) :: rat) \<le> of_int (2 ^ 53 - 1)"
    by (simp only: of_int_le_iff)
  also have "(of_int (2 ^ 53 - 1) :: rat) = P - 1" by (simp add: P_def)
  finally have "of_int (roundTiesToEven (x / u)) * u \<le> (P - 1) * u"
    using P by (simp add: u divide_right_mono)
  also have "(P - 1) * u < 1" using P by (simp add: u)
  finally show ?thesis by (simp add: d)
next
  case False
  have "(0::rat) < 1 / 2 ^ 53" by simp
  with assms(2) have "x < 1" by linarith
  with assms(1) False have "exponent x + 1 \<le> - 1" using exponent_negative [of x] by simp
  then have "(2::rat) powi (exponent x + 1) \<le> 2 powi (- 1)"
    by (intro power_int_increasing) simp_all
  with double_below_two_powi [OF assms(1)] have "double x \<le> 1 / 2"
    by (simp add: power_int_minus_divide)
  then show ?thesis by simp
qed

section \<open>Properties of the match score\<close>

lemma matchingSkills_card:
  assumes "distinct A'"
  shows "length (filter (Array_includes B') A') = card (set A' \<inter> set B')"
proof -
  from assms have "distinct (filter (Array_includes B') A')" by simp
  then have "length (filter (Array_includes B') A') = card (set (filter (Array_includes B') A'))"
    by (rule distinct_card [symmetric])
  also have "set (filter (Array_includes B') A') = set A' \<inter> set B'"
    by (auto simp: Array_includes_def)
  finally show ?thesis .
qed

lemma calculateMatchScore_nonempty:
  assumes "A \<noteq> []" and "B \<noteq> []"
  shows "calculateMatchScore A B =
           Number_div (of_nat (length (filter (Array_includes (map toLowerCase B)) (map toLowerCase A))))
             (of_nat (max (length A) (length B)))"
  using assms by (simp add: calculateMatchScore_def Let_def)

lemma calculateMatchScore_empty:
  "calculateMatchScore [] B = 0" "calculateMatchScore A [] = 0"
  by (simp_all add: calculateMatchScore_def)

lemma Number_div_unit_interval:
  assumes "m \<le> n" and "0 < n"
  shows "0 \<le> Number_div (of_nat m) (of_nat n)" and "Number_div (of_nat m) (of_nat n) \<le> 1"
proof -
  from assms have q: "0 \<le> (of_nat m :: rat) / of_nat n" "(of_nat m :: rat) / of_nat n \<le> 1"
    by simp_all
  from q(1) show "0 \<le> Number_div (of_nat m) (of_nat n)"
    unfolding Number_div_def by (rule double_nonneg)
  from q show "Number_div (of_nat m) (of_nat n) \<le> 1"
    unfolding Number_div_def by (rule double_le_one)
qed

lemma Number_div_self: "0 < n \<Longrightarrow> Number_div (of_nat n) (of_nat n) = 1"
  by (simp add: Number_div_def double_one)

text \<open>A quotient of two array lengths is 1 only when the lengths are equal.\<close>

lemma Number_div_one_only:
  assumes "m \<le> n" and "0 < n" and "n < 2 ^ 53"
    and one: "Number_div (of_nat m) (of_nat n) = 1"
  shows "m = n"
proof (rule ccontr)
  assume "m \<noteq> n"
  with assms(1) have less: "m + 1 \<le> n" by simp
  show False
  proof (cases "m = 0")
    case True
    with one show False by (simp add: Number_div_def double_def)
  next
    case False
    with assms(2) have pos: "0 < (of_nat m :: rat) / of_nat n" by simp
    from less have "(of_nat (m + 1) :: rat) \<le> of_nat n"
      by (simp only: of_nat_le_iff)
    then have "(of_nat m :: rat) + 1 \<le> of_nat n" by simp
    with assms(2) have a: "(of_nat m :: rat) / of_nat n \<le> 1 - 1 / of_nat n"
      by (simp add: field_simps)
    from assms(3) have "(of_nat n :: rat) < of_nat (2 ^ 53)"
      by (simp only: of_nat_less_iff)
    then have "(of_nat n :: rat) \<le> 2 ^ 53" by simp
    with assms(2) have "1 / (2 ^ 53 :: rat) \<le> 1 / of_nat n"
      by (intro divide_left_mono) simp_all
    with a have "(of_nat m :: rat) / of_nat n \<le> 1 - 1 / 2 ^ 53" by linarith
    with pos have "double (of_nat m / of_nat n) < 1" by (rule double_less_one)
    with one show False by (simp add: Number_div_def)
  qed
qed

lemma matchingSkills_le_length:
  "length (filter (Array_includes B') (map toLowerCase A)) \<le> length A"
proof -
  have "length (filter (Array_includes B') (map toLowerCase A)) \<le> length (map toLowerCase A)"
    by (rule length_filter_le)
  then show ?thesis by (simp only: length_map)
qed

lemma calculateMatchScore_self:
  assumes "A \<noteq> []"
  shows "calculateMatchScore A A = 1"
proof -
  have "filter (Array_includes (map toLowerCase A)) (map toLowerCase A) = map toLowerCase A"
    unfolding Array_includes_def by (rule filter_True) simp
  then have "length (filter (Array_includes (map toLowerCase A)) (map toLowerCase A)) = length A"
    by (simp only: length_map)
  moreover from assms have "0 < length A" by simp
  ultimately show ?thesis
    unfolding calculateMatchScore_nonempty [OF assms assms] by (simp only: max.idem Number_div_self)
qed

lemma calculateMatchScore_range:
  "0 \<le> calculateMatchScore A B" "calculateMatchScore A B \<le> 1"
proof -
  have le: "length (filter (Array_includes (map toLowerCase B)) (map toLowerCase A))
          \<le> max (length A) (length B)"
    using matchingSkills_le_length [of "map toLowerCase B" A] by (rule max.coboundedI1)
  show "0 \<le> calculateMatchScore A B"
  proof (cases "A = [] \<or> B = []")
    case True
    then show ?thesis by (auto simp: calculateMatchScore_empty)
  next
    case False
    then have ne: "A \<noteq> []" "B \<noteq> []" by simp_all
    then have "0 < max (length A) (length B)" by (simp add: less_max_iff_disj)
    with le show ?thesis
      unfolding calculateMatchScore_nonempty [OF ne] by (rule Number_div_unit_interval)
  qed
  show "calculateMatchScore A B \<le> 1"
  proof (cases "A = [] \<or> B = []")
    case True
    then show ?thesis by (auto simp: calculateMatchScore_empty)
  next
    case False
    then have ne: "A \<noteq> []" "B \<noteq> []" by simp_all
    then have "0 < max (length A) (length B)" by (simp add: less_max_iff_disj)
    with le show ?thesis
      unfolding calculateMatchScore_nonempty [OF ne] by (rule Number_div_unit_interval)
  qed
qed

lemma calculateMatchScore_one_only:
  assumes dA: "distinct (map toLowerCase A)" and dB: "distinct (map toLowerCase B)"
    and lA: "length A < 2 ^ 32" and lB: "length B < 2 ^ 32"
    and one: "calculateMatchScore A B = 1"
  shows "A \<noteq> [] \<and> B \<noteq> [] \<and> set (map toLowerCase A) = set (map toLowerCase B)"
proof -
  let ?A = "map toLowerCase A" and ?B = "map toLowerCase B"
  let ?m = "length (filter (Array_includes ?B) ?A)"
  let ?n = "max (length A) (length B)"
  from one have ne: "A \<noteq> []" "B \<noteq> []"
    by (auto simp: calculateMatchScore_empty)
  then have npos: "0 < ?n" by (simp add: less_max_iff_disj)
  have mA: "?m \<le> length A" by (rule matchingSkills_le_length)
  then have mn: "?m \<le> ?n" by (rule max.coboundedI1)
  have "(2::nat) ^ 32 \<le> 2 ^ 53" by (rule power_increasing) simp_all
  with lA lB have nlt: "?n < 2 ^ 53" by simp
  from one have "Number_div (of_nat ?m) (of_nat ?n) = 1"
    unfolding calculateMatchScore_nonempty [OF ne] .
  with mn npos nlt have eq: "?m = ?n" by (rule Number_div_one_only)
  with mA have mlen: "?m = length A" and BA: "length B \<le> length A" by linarith+
  have card: "?m = card (set ?A \<inter> set ?B)" using dA by (rule matchingSkills_card)
  have cA: "card (set ?A) = length A" using dA distinct_card [of ?A] by simp
  have cB: "card (set ?B) = length B" using dB distinct_card [of ?B] by simp
  from card mlen cA have "card (set ?A \<inter> set ?B) = card (set ?A)" by linarith
  then have "set ?A \<inter> set ?B = set ?A"
    by (intro card_subset_eq) simp_all
  then have sub: "set ?A \<subseteq> set ?B" by blast
  moreover from BA cA cB have "card (set ?B) \<le> card (set ?A)" by simp
  ultimately have "set ?A = set ?B"
    by (intro card_seteq) simp_all
  with ne show ?thesis by simp
qed

text \<open>
  The examples of the specification: one common skill of two, and the same skills in
  another case.
\<close>

lemma score_example_half:
  "calculateMatchScore [''React'', ''Git''] [''git'', ''node''] = 1 / 2"
  "calculateMatchScore [''git'', ''node''] [''React'', ''Git''] = 1 / 2"
  by code_simp+

lemma score_example_one:
  "calculateMatchScore [''AWS'', ''Docker''] [''aws'', ''docker''] = 1"
  by code_simp

text \<open>
  On lists that repeat a skill the score counts every repetition in the first list, so it
  is no function of the two sets, and it is not symmetric.
\<close>

lemma score_counts_duplicates:
  "calculateMatchScore [''a'', ''a''] [''a'', ''b'', ''c''] = double (2 / 3)"
  "calculateMatchScore [''a'', ''b'', ''c''] [''a'', ''a''] = double (1 / 3)"
  by (simp_all add: calculateMatchScore_def Array_includes_def Number_div_def lower_eval)



text \<open>
  C4. The score of any two lists lies between 0 and 1; the score of a non-empty list
  against itself is 1; and for skill sets (lists without repetition once in lower case, of
  a length a JavaScript array can have) the score is 1 only when both are non-empty and
  hold the same skills, compared in lower case.
\<close>

theorem matchScore_unit_interval:
  "0 \<le> calculateMatchScore A B \<and> calculateMatchScore A B \<le> 1
   \<and> (A \<noteq> [] \<longrightarrow> calculateMatchScore A A = 1)
   \<and> (distinct (map toLowerCase A) \<and> distinct (map toLowerCase B)
        \<and> length A < 2 ^ 32 \<and> length B < 2 ^ 32 \<and> calculateMatchScore A B = 1
        \<longrightarrow> A \<noteq> [] \<and> B \<noteq> [] \<and> set (map toLowerCase A) = set (map toLowerCase B))"
  using calculateMatchScore_range [of A B] calculateMatchScore_self [of A]
    calculateMatchScore_one_only [of A B]
  by blast

theorem matchScore_unit_interval_witness:
  "0 \<le> calculateMatchScore [''AWS'', ''Docker''] [''aws'', ''docker'']
   \<and> calculateMatchScore [''AWS'', ''Docker''] [''aws'', ''docker''] \<le> 1
   \<and> [''AWS'', ''Docker''] \<noteq> []
   \<and> calculateMatchScore [''AWS'', ''Docker''] [''AWS'', ''Docker''] = 1
   \<and> distinct (map toLowerCase [''AWS'', ''Docker''])
   \<and> distinct (map toLowerCase [''aws'', ''docker''])
   \<and> length [''AWS'', ''Docker''] < 2 ^ 32 \<and> length [''aws'', ''docker''] < 2 ^ 32
   \<and> calculateMatchScore [''AWS'', ''Docker''] [''aws'', ''docker''] = 1
   \<and> [''aws'', ''docker''] \<noteq> []
   \<and> set (map toLowerCase [''AWS'', ''Docker'']) = set (map toLowerCase [''aws'', ''docker''])"
proof -
  have d: "distinct (map toLowerCase [''AWS'', ''Docker''])"
    "distinct (map toLowerCase [''aws'', ''docker''])"
    by (simp_all add: lower_eval)
  have l: "length [''AWS'', ''Docker''] < 2 ^ 32" "length [''aws'', ''docker''] < 2 ^ 32"
    by simp_all
  have n: "[''AWS'', ''Docker''] \<noteq> []" by simp
  from matchScore_unit_interval [of "[''AWS'', ''Docker'']" "[''aws'', ''docker'']"]
    d l n score_example_one
  show ?thesis by blast
qed

text \<open>
  C5. For skill sets \<open>A\<close> and \<open>B\<close> (lists without repetition once in lower case) the score
  of \<open>A\<close> against \<open>B\<close> equals the score of \<open>B\<close> against \<open>A\<close>.
\<close>

theorem matchScore_symmetric:
  assumes "distinct (map toLowerCase A)" and "distinct (map toLowerCase B)"
  shows "calculateMatchScore A B = calculateMatchScore B A"
proof (cases "A = [] \<or> B = []")
  case True
  then show ?thesis by (auto simp: calculateMatchScore_empty)
next
  case False
  have "length (filter (Array_includes (map toLowerCase B)) (map toLowerCase A))
          = card (set (map toLowerCase A) \<inter> set (map toLowerCase B))"
    using assms(1) by (rule matchingSkills_card)
  moreover have "length (filter (Array_includes (map toLowerCase A)) (map toLowerCase B))
          = card (set (map toLowerCase B) \<inter> set (map toLowerCase A))"
    using assms(2) by (rule matchingSkills_card)
  ultimately show ?thesis
    using False by (simp add: calculateMatchScore_nonempty Int_commute max.commute)
qed

theorem matchScore_symmetric_witness:
  "distinct (map toLowerCase [''React'', ''Git''])
   \<and> distinct (map toLowerCase [''git'', ''node''])
   \<and> calculateMatchScore [''React'', ''Git''] [''git'', ''node'']
       = calculateMatchScore [''git'', ''node''] [''React'', ''Git'']
   \<and> calculateMatchScore [''git'', ''node''] [''React'', ''Git''] = 1 / 2"
proof -
  have d: "distinct (map toLowerCase [''React'', ''Git''])"
    "distinct (map toLowerCase [''git'', ''node''])"
    by (simp_all add: lower_eval)
  from matchScore_symmetric [OF d] d score_example_half(2) show ?thesis by blast
qed

section \<open>Properties of the ranking\<close>

lemma Array_sort_insert_insort_key:
  "Array_sort_insert (\<lambda>a b. Number_sub (f b) (f a)) x ys = insort_key (\<lambda>e. - f e) x ys"
  by (induction ys) (auto simp: Number_sub_def double_pos_iff)

lemma Array_sort_sort_key:
  "Array_sort (\<lambda>a b. Number_sub (f b) (f a)) xs = sort_key (\<lambda>e. - f e) xs"
proof -
  have "Array_sort_insert (\<lambda>a b. Number_sub (f b) (f a)) = insort_key (\<lambda>e. - f e)"
    by (intro ext) (rule Array_sort_insert_insort_key)
  then show ?thesis by (simp add: Array_sort_def sort_key_def)
qed

lemma sort_key_descending:
  fixes f :: "'a \<Rightarrow> rat"
  shows "sorted_wrt (\<lambda>a b. f b \<le> f a) (sort_key (\<lambda>e. - f e) xs)"
proof -
  have "sorted (map (\<lambda>e. - f e) (sort_key (\<lambda>e. - f e) xs))" by (rule sorted_sort_key)
  then show ?thesis by (simp add: sorted_wrt_map)
qed

lemma sort_key_ties:
  fixes f :: "'a \<Rightarrow> rat"
  shows "filter (\<lambda>e. f e = s) (sort_key (\<lambda>e. - f e) xs) = filter (\<lambda>e. f e = s) xs"
  using sort_key_stable [of "\<lambda>e. - f e" "- s" xs] by simp

lemma recommendations_jobs:
  "map job.truncate (recommendations userSkills allJobs) = allJobs"
  by (induction allJobs) (simp_all add: recommendations_def Let_def job.defs recommendation.defs)

lemma recommendations_entry:
  assumes "e \<in> set (recommendations userSkills allJobs)"
  shows "job.truncate e \<in> set allJobs"
    and "matchScore e = calculateMatchScore userSkills (job.skills e)"
    and "matchPercentage e = Math_round (Number_mul (matchScore e) 100)"
proof -
  from assms have "job.truncate e \<in> set (map job.truncate (recommendations userSkills allJobs))"
    by (simp only: set_map image_eqI)
  then show "job.truncate e \<in> set allJobs" by (simp only: recommendations_jobs)
  from assms show "matchScore e = calculateMatchScore userSkills (job.skills e)"
    and "matchPercentage e = Math_round (Number_mul (matchScore e) 100)"
    by (auto simp: recommendations_def Let_def job.defs recommendation.defs)
qed

lemma kept_jobs:
  "map job.truncate (filter (\<lambda>e. t < matchScore e) (recommendations userSkills allJobs))
     = filter (\<lambda>j. t < calculateMatchScore userSkills (job.skills j)) allJobs"
  by (induction allJobs)
     (simp_all add: recommendations_def Let_def job.defs recommendation.defs)

lemma topRecommendations_sort_key:
  "topRecommendations userSkills allJobs =
     take 10 (sort_key (\<lambda>e. - matchScore e)
        (filter (\<lambda>e. double (1 / 10) < matchScore e) (recommendations userSkills allJobs)))"
  by (simp only: topRecommendations_def Array_sort_sort_key)

lemma topRecommendations_subset:
  "set (topRecommendations userSkills allJobs)
     \<subseteq> {e \<in> set (recommendations userSkills allJobs). double (1 / 10) < matchScore e}"
proof -
  have "set (topRecommendations userSkills allJobs)
          \<subseteq> set (sort_key (\<lambda>e. - matchScore e)
              (filter (\<lambda>e. double (1 / 10) < matchScore e) (recommendations userSkills allJobs)))"
    unfolding topRecommendations_sort_key by (rule set_take_subset)
  then show ?thesis by auto
qed

lemma double_zero: "double 0 = 0"
  by (simp add: double_def)

lemma double_fifths:
  "double (1 / 10) = 3602879701896397 / 36028797018963968"
  "double (2 / 5) = 3602879701896397 / 9007199254740992"
  "double (3 / 5) = 5404319552844595 / 9007199254740992"
  "double (4 / 5) = 3602879701896397 / 4503599627370496"
  by code_simp+

lemma percent_fifths:
  "Math_round (Number_mul (3602879701896397 / 9007199254740992) 100) = 40"
  "Math_round (Number_mul (5404319552844595 / 9007199254740992) 100) = 60"
  "Math_round (Number_mul (3602879701896397 / 4503599627370496) 100) = 80"
  "Math_round (Number_mul 0 100) = 0"
  by code_simp+

text \<open>
  The ranking of the six sample jobs for the skills of the stub resume: the full stack,
  backend and frontend jobs, with four, three and two of five skills in common.
\<close>

lemma topRecommendations_sample:
  "topRecommendations [''JavaScript'', ''React'', ''Node.js'', ''MongoDB'', ''Express''] sampleJobs
   = [job.extend (sampleJobs ! 2) (recommendation.fields (double (4 / 5)) 80),
      job.extend (sampleJobs ! 1) (recommendation.fields (double (3 / 5)) 60),
      job.extend (sampleJobs ! 0) (recommendation.fields (double (2 / 5)) 40)]"
  by (simp add: topRecommendations_def recommendations_def sampleJobs_def
      calculateMatchScore_def Array_includes_def Number_div_def lower_eval double_zero
      double_fifths percent_fifths Array_sort_def Number_sub_def double_pos_iff
      job.defs recommendation.defs Let_def)

lemma topRecommendations_sample_columns:
  "map oid (topRecommendations [''JavaScript'', ''React'', ''Node.js'', ''MongoDB'', ''Express'']
              sampleJobs) = [''3'', ''2'', ''1'']"
  "map matchPercentage
     (topRecommendations [''JavaScript'', ''React'', ''Node.js'', ''MongoDB'', ''Express'']
        sampleJobs) = [80, 60, 40]"
  unfolding topRecommendations_sample
  by (simp_all add: sampleJobs_def job.defs recommendation.defs)

text \<open>
  C3. The ranked list is the first ten entries of a rearrangement of the entries that
  score above the literal 0.1, in descending order of score, the entries of equal score in
  their original order; the entries kept are those of exactly the jobs that score above
  0.1. So the result has at most ten entries, its scores never increase, and no entry has
  a score of 0.1 or less.
\<close>

theorem topRecommendations_ranking:
  "(\<exists>ranked.
       topRecommendations userSkills allJobs = take 10 ranked
     \<and> mset ranked = mset (filter (\<lambda>e. double (1 / 10) < matchScore e)
                              (recommendations userSkills allJobs))
     \<and> sorted_wrt (\<lambda>a b. matchScore b \<le> matchScore a) ranked
     \<and> (\<forall>s. filter (\<lambda>e. matchScore e = s) ranked
              = filter (\<lambda>e. matchScore e = s)
                  (filter (\<lambda>e. double (1 / 10) < matchScore e)
                     (recommendations userSkills allJobs))))
   \<and> map job.truncate (filter (\<lambda>e. double (1 / 10) < matchScore e)
                          (recommendations userSkills allJobs))
       = filter (\<lambda>j. double (1 / 10) < calculateMatchScore userSkills (job.skills j)) allJobs
   \<and> length (topRecommendations userSkills allJobs) \<le> 10
   \<and> sorted_wrt (\<lambda>a b. matchScore b \<le> matchScore a) (topRecommendations userSkills allJobs)
   \<and> (\<forall>e\<in>set (topRecommendations userSkills allJobs). \<not> matchScore e \<le> double (1 / 10))"
proof (intro conjI)
  let ?kept = "filter (\<lambda>e. double (1 / 10) < matchScore e) (recommendations userSkills allJobs)"
  let ?ranked = "sort_key (\<lambda>e. - matchScore e) ?kept"
  have "topRecommendations userSkills allJobs = take 10 ?ranked"
    by (rule topRecommendations_sort_key)
  moreover have "mset ?ranked = mset ?kept" by (rule mset_sort)
  moreover have "sorted_wrt (\<lambda>a b. matchScore b \<le> matchScore a) ?ranked"
    by (rule sort_key_descending)
  moreover have "\<forall>s. filter (\<lambda>e. matchScore e = s) ?ranked = filter (\<lambda>e. matchScore e = s) ?kept"
    by (intro allI sort_key_ties)
  ultimately show "\<exists>ranked.
       topRecommendations userSkills allJobs = take 10 ranked
     \<and> mset ranked = mset ?kept
     \<and> sorted_wrt (\<lambda>a b. matchScore b \<le> matchScore a) ranked
     \<and> (\<forall>s. filter (\<lambda>e. matchScore e = s) ranked = filter (\<lambda>e. matchScore e = s) ?kept)"
    by blast
  show "map job.truncate ?kept
       = filter (\<lambda>j. double (1 / 10) < calculateMatchScore userSkills (job.skills j)) allJobs"
    by (rule kept_jobs)
  show "length (topRecommendations userSkills allJobs) \<le> 10"
    by (simp add: topRecommendations_def)
  show "sorted_wrt (\<lambda>a b. matchScore b \<le> matchScore a) (topRecommendations userSkills allJobs)"
    unfolding topRecommendations_sort_key by (intro sorted_wrt_take sort_key_descending)
  show "\<forall>e\<in>set (topRecommendations userSkills allJobs). \<not> matchScore e \<le> double (1 / 10)"
    using topRecommendations_subset [of userSkills allJobs] by (auto simp: not_le)
qed

theorem topRecommendations_ranking_witness:
  "(\<exists>ranked.
       topRecommendations [''JavaScript'', ''React'', ''Node.js'', ''MongoDB'', ''Express'']
         sampleJobs = take 10 ranked
     \<and> mset ranked = mset (filter (\<lambda>e. double (1 / 10) < matchScore e)
          (recommendations [''JavaScript'', ''React'', ''Node.js'', ''MongoDB'', ''Express'']
             sampleJobs))
     \<and> sorted_wrt (\<lambda>a b. matchScore b \<le> matchScore a) ranked
     \<and> (\<forall>s. filter (\<lambda>e. matchScore e = s) ranked
              = filter (\<lambda>e. matchScore e = s)
                  (filter (\<lambda>e. double (1 / 10) < matchScore e)
                     (recommendations
                        [''JavaScript'', ''React'', ''Node.js'', ''MongoDB'', ''Express'']
                        sampleJobs))))
   \<and> length (topRecommendations
         [''JavaScript'', ''React'', ''Node.js'', ''MongoDB'', ''Express''] sampleJobs) \<le> 10
   \<and> sorted_wrt (\<lambda>a b. matchScore b \<le> matchScore a)
        (topRecommendations
           [''JavaScript'', ''React'', ''Node.js'', ''MongoDB'', ''Express''] sampleJobs)
   \<and> list_all (\<lambda>e. \<not> matchScore e \<le> double (1 / 10))
        (topRecommendations
           [''JavaScript'', ''React'', ''Node.js'', ''MongoDB'', ''Express''] sampleJobs)
   \<and> map oid (topRecommendations
         [''JavaScript'', ''React'', ''Node.js'', ''MongoDB'', ''Express''] sampleJobs)
       = [''3'', ''2'', ''1'']"
  using topRecommendations_ranking
          [of "[''JavaScript'', ''React'', ''Node.js'', ''MongoDB'', ''Express'']" sampleJobs]
    topRecommendations_sample_columns(1)
  unfolding list_all_iff by blast

section \<open>The percentage\<close>

lemma roundTiesToEven_near: "\<bar>of_int (roundTiesToEven y) - y\<bar> \<le> 1 / 2"
proof -
  have "of_int \<lfloor>y\<rfloor> \<le> y" and "y < of_int \<lfloor>y\<rfloor> + 1"
    by linarith+
  then show ?thesis
    unfolding roundTiesToEven_def Let_def by (auto simp: abs_le_iff)
qed

text \<open>Rounding to binary64 changes a value by at most one part in \<open>2^53\<close>.\<close>

lemma double_error:
  assumes "0 \<le> x"
  shows "\<bar>double x - x\<bar> \<le> x / 2 ^ 53"
proof (cases "x = 0")
  case True
  then show ?thesis by (simp add: double_def)
next
  case False
  with assms have pos: "0 < x" by simp
  define u :: rat where "u = 2 powi (exponent x - 52)"
  have upos: "0 < u" by (simp add: u_def)
  have d: "double x = of_int (roundTiesToEven (x / u)) * u"
    unfolding u_def using double_significand [OF pos] by simp
  have "double x - x = (of_int (roundTiesToEven (x / u)) - x / u) * u"
    using upos by (simp add: d left_diff_distrib)
  then have "\<bar>double x - x\<bar> = \<bar>of_int (roundTiesToEven (x / u)) - x / u\<bar> * \<bar>u\<bar>"
    by (simp only: abs_mult)
  also have "\<bar>u\<bar> = u" using upos by simp
  finally have "\<bar>double x - x\<bar> = \<bar>of_int (roundTiesToEven (x / u)) - x / u\<bar> * u" .
  also have "\<dots> \<le> 1 / 2 * u"
    using upos roundTiesToEven_near [of "x / u"] by (intro mult_right_mono) simp_all
  also have "1 / 2 * u = 2 powi (exponent x) / 2 ^ 53"
  proof -
    have "u = 2 powi (exponent x) / 2 powi 52"
      unfolding u_def by (rule power_int_diff) simp
    then show ?thesis by simp
  qed
  also have "\<dots> \<le> x / 2 ^ 53"
    using exponent_bounds(1) [OF pos] by (intro divide_right_mono) simp_all
  finally show ?thesis .
qed

lemma Math_round_nearest:
  "of_int (Math_round x) - 1 / 2 \<le> x" "x < of_int (Math_round x) + 1 / 2"
proof -
  have "of_int \<lfloor>x + 1 / 2\<rfloor> \<le> x + 1 / 2" and "x + 1 / 2 < of_int \<lfloor>x + 1 / 2\<rfloor> + 1"
    by linarith+
  then show "of_int (Math_round x) - 1 / 2 \<le> x" "x < of_int (Math_round x) + 1 / 2"
    unfolding Math_round_def by linarith+
qed

lemma Number_mul_error:
  assumes "0 \<le> x"
  shows "\<bar>Number_mul x 100 - x * 100\<bar> \<le> x * 100 / 2 ^ 53"
proof -
  from assms have "0 \<le> x * 100" by simp
  then show ?thesis unfolding Number_mul_def by (rule double_error)
qed

lemma double_sixths:
  "double (1 / 6) = 6004799503160661 / 36028797018963968"
  "double (2 / 3) = 6004799503160661 / 9007199254740992"
  "double (5 / 6) = 7505999378950827 / 9007199254740992"
  by code_simp+

text \<open>
  With six skills for the candidate the scores of the sample jobs are sixths, and the
  percentages are no whole products: 83, 67 and twice 17, the two jobs of equal score in
  their original order.
\<close>

lemma percent_sixths:
  "Math_round (Number_mul (6004799503160661 / 36028797018963968) 100) = 17"
  "Math_round (Number_mul (6004799503160661 / 9007199254740992) 100) = 67"
  "Math_round (Number_mul (7505999378950827 / 9007199254740992) 100) = 83"
  by code_simp+

lemma topRecommendations_six_skills:
  "topRecommendations [''React'', ''Node.js'', ''MongoDB'', ''Express'', ''Git'', ''AWS''] sampleJobs
   = [job.extend (sampleJobs ! 2) (recommendation.fields (double (5 / 6)) 83),
      job.extend (sampleJobs ! 1) (recommendation.fields (double (2 / 3)) 67),
      job.extend (sampleJobs ! 0) (recommendation.fields (double (1 / 6)) 17),
      job.extend (sampleJobs ! 3) (recommendation.fields (double (1 / 6)) 17)]"
  by (simp add: topRecommendations_def recommendations_def sampleJobs_def
      calculateMatchScore_def Array_includes_def Number_div_def lower_eval double_zero
      double_fifths(1) double_sixths percent_sixths percent_fifths(4) Array_sort_def
      Number_sub_def double_pos_iff job.defs recommendation.defs Let_def)

lemma topRecommendations_six_skills_columns:
  "map oid (topRecommendations [''React'', ''Node.js'', ''MongoDB'', ''Express'', ''Git'', ''AWS'']
              sampleJobs) = [''3'', ''2'', ''1'', ''4'']"
  "map matchPercentage
     (topRecommendations [''React'', ''Node.js'', ''MongoDB'', ''Express'', ''Git'', ''AWS'']
        sampleJobs) = [83, 67, 17, 17]"
  unfolding topRecommendations_six_skills
  by (simp_all add: sampleJobs_def job.defs recommendation.defs)

text \<open>
  The percentage is rounded from the binary64 product, a tie going up: one skill of 8 gives
  12.5 and 13 percent. The product can differ from the exact one in the last place: 23 of
  40 skills give the score nearest to 0.575 and the product 57.49999999999999, hence 57
  percent; 31 of 200 and 7 of 40 give the products 15.5 and 17.5, hence 16 and 18 percent,
  where the scores themselves lie just below 0.155 and 0.175.
\<close>

lemma percentage_of_binary64_product:
  "Math_round (Number_mul (Number_div 1 8) 100) = 13"
  "Math_round (Number_mul (Number_div 23 40) 100) = 57"
  "Math_round (Number_mul (Number_div 31 200) 100) = 16"
  "Math_round (Number_mul (Number_div 7 40) 100) = 18"
  by code_simp+

text \<open>
  C7. Every entry of the ranked list carries the score of its job against the candidate's
  skills, and its percentage is the integer nearest to that score times 100: it differs
  from the product by at most one half, a product halfway between two integers giving the
  higher one. The product is the one of JavaScript numbers, which differs from the exact
  product by at most one part in \<open>2^53\<close>.
\<close>

theorem topRecommendations_percentage:
  "\<forall>e\<in>set (topRecommendations userSkills allJobs).
      matchScore e = calculateMatchScore userSkills (job.skills e)
    \<and> of_int (matchPercentage e) - 1 / 2 \<le> Number_mul (matchScore e) 100
    \<and> Number_mul (matchScore e) 100 < of_int (matchPercentage e) + 1 / 2
    \<and> \<bar>Number_mul (matchScore e) 100 - matchScore e * 100\<bar> \<le> matchScore e * 100 / 2 ^ 53"
proof
  fix e assume "e \<in> set (topRecommendations userSkills allJobs)"
  with topRecommendations_subset [of userSkills allJobs]
  have e: "e \<in> set (recommendations userSkills allJobs)" by auto
  then have s: "matchScore e = calculateMatchScore userSkills (job.skills e)"
    and p: "matchPercentage e = Math_round (Number_mul (matchScore e) 100)"
    by (rule recommendations_entry)+
  from s have "0 \<le> matchScore e" by (simp add: calculateMatchScore_range)
  then have "\<bar>Number_mul (matchScore e) 100 - matchScore e * 100\<bar> \<le> matchScore e * 100 / 2 ^ 53"
    by (rule Number_mul_error)
  with s Math_round_nearest [of "Number_mul (matchScore e) 100"]
  show "matchScore e = calculateMatchScore userSkills (job.skills e)
    \<and> of_int (matchPercentage e) - 1 / 2 \<le> Number_mul (matchScore e) 100
    \<and> Number_mul (matchScore e) 100 < of_int (matchPercentage e) + 1 / 2
    \<and> \<bar>Number_mul (matchScore e) 100 - matchScore e * 100\<bar> \<le> matchScore e * 100 / 2 ^ 53"
    unfolding p by blast
qed

theorem topRecommendations_percentage_witness:
  "list_all
     (\<lambda>e. matchScore e
            = calculateMatchScore
                [''React'', ''Node.js'', ''MongoDB'', ''Express'', ''Git'', ''AWS'']
                (job.skills e)
          \<and> of_int (matchPercentage e) - 1 / 2 \<le> Number_mul (matchScore e) 100
          \<and> Number_mul (matchScore e) 100 < of_int (matchPercentage e) + 1 / 2
          \<and> \<bar>Number_mul (matchScore e) 100 - matchScore e * 100\<bar>
              \<le> matchScore e * 100 / 2 ^ 53)
     (topRecommendations
        [''React'', ''Node.js'', ''MongoDB'', ''Express'', ''Git'', ''AWS''] sampleJobs)
   \<and> map matchPercentage
        (topRecommendations
           [''React'', ''Node.js'', ''MongoDB'', ''Express'', ''Git'', ''AWS''] sampleJobs)
       = [83, 67, 17, 17]"
  using topRecommendations_percentage
          [of "[''React'', ''Node.js'', ''MongoDB'', ''Express'', ''Git'', ''AWS'']" sampleJobs]
    topRecommendations_six_skills_columns(2)
  unfolding list_all_iff by blast

section \<open>Properties of the recommendation route\<close>

lemma recommendation_split:
  "e = job.extend (job.truncate e) (recommendation.fields (matchScore e) (matchPercentage e))"
  by (cases e) (simp add: job.defs recommendation.defs)

lemma double_tenth_pos: "0 < double (1 / 10)"
  by (rule double_pos) simp

lemma recommendations_no_skills:
  "length (recommendations [] allJobs) = length allJobs"
  "\<forall>e\<in>set (recommendations [] allJobs). matchScore e = 0"
  "filter (\<lambda>e. double (1 / 10) < matchScore e) (recommendations [] allJobs) = []"
proof -
  show "length (recommendations [] allJobs) = length allJobs"
    by (simp add: recommendations_def)
  show all0: "\<forall>e\<in>set (recommendations [] allJobs). matchScore e = 0"
    by (auto dest: recommendations_entry(2) simp: calculateMatchScore_empty)
  then show "filter (\<lambda>e. double (1 / 10) < matchScore e) (recommendations [] allJobs) = []"
    using double_tenth_pos by (auto simp: filter_empty_conv)
qed

lemma topRecommendations_no_skills: "topRecommendations [] allJobs = []"
  by (simp add: topRecommendations_def recommendations_no_skills(3) Array_sort_def)

lemma job_recommendations_collections:
  "users (snd (job_recommendations uid db)) = users db"
  "jobs (snd (job_recommendations uid db)) = jobs db"
  by (simp_all add: job_recommendations_def User_findById_def Job_find_def Let_def
      split: option.splits)

lemma job_recommendations_userSkills:
  assumes "users db uid = Some user" and "parsedResume (profile user) = Some parsed"
    and "parsedData.skills parsed = Some stored"
  shows "res_userSkills (body (fst (job_recommendations uid db))) = Some stored"
  using assms by (simp add: job_recommendations_def User_findById_def Job_find_def)

text \<open>
  C6. When the stored profile has no parsed resume, the route answers with status 200,
  \<^verbatim>\<open>success: true\<close>, an empty list of recommendations and the message
  \<^verbatim>\<open>No resume uploaded yet\<close>. It has only looked the user up: the jobs are never
  queried, and the answer is the same whatever the job collection holds.
\<close>

theorem no_resume_short_circuit:
  assumes "users db uid = Some user" and "parsedResume (profile user) = None"
  shows "job_recommendations uid db =
           (\<lparr>status = 200,
             body = \<lparr>res_success = True, res_recommendations = Some [],
                      res_userSkills = None, res_message = Some ''No resume uploaded yet''\<rparr>\<rparr>,
            db\<lparr>queries := queries db @ [User_findById_query uid]\<rparr>)
         \<and> fst (job_recommendations uid (db\<lparr>jobs := otherJobs\<rparr>)) = fst (job_recommendations uid db)"
  using assms by (simp add: job_recommendations_def User_findById_def)

theorem no_resume_short_circuit_witness:
  "job_recommendations ''u1''
     \<lparr>users = [''u1'' \<mapsto> new_User ''Ann'' ''ann@example.com'' ''hash'' ''candidate''],
      jobs = sampleJobs, queries = []\<rparr>
   = (\<lparr>status = 200,
       body = \<lparr>res_success = True, res_recommendations = Some [],
                res_userSkills = None, res_message = Some ''No resume uploaded yet''\<rparr>\<rparr>,
      \<lparr>users = [''u1'' \<mapsto> new_User ''Ann'' ''ann@example.com'' ''hash'' ''candidate''],
       jobs = sampleJobs, queries = [User_findById_query ''u1'']\<rparr>)
   \<and> fst (job_recommendations ''u1''
            \<lparr>users = [''u1'' \<mapsto> new_User ''Ann'' ''ann@example.com'' ''hash'' ''candidate''],
             jobs = [], queries = []\<rparr>)
     = fst (job_recommendations ''u1''
            \<lparr>users = [''u1'' \<mapsto> new_User ''Ann'' ''ann@example.com'' ''hash'' ''candidate''],
             jobs = sampleJobs, queries = []\<rparr>)"
proof -
  let ?u = "new_User ''Ann'' ''ann@example.com'' ''hash'' ''candidate''"
  let ?db = "\<lparr>users = [''u1'' \<mapsto> ?u], jobs = sampleJobs, queries = []\<rparr>"
  have "users ?db ''u1'' = Some ?u" by simp
  moreover have "parsedResume (profile ?u) = None" by (simp add: new_User_def)
  ultimately show ?thesis
    using no_resume_short_circuit [of ?db "''u1''" ?u "[]"] by simp
qed

text \<open>
  C9. When the stored profile has a parsed resume whose skills are missing or empty, the
  route queries the jobs and scores every one of them against the empty list; every score
  is 0, no entry passes the threshold, and the answer is a success with an empty list of
  recommendations, the empty list of user skills and no message.
\<close>

theorem empty_resume_skills_no_message:
  assumes "users db uid = Some user" and "parsedResume (profile user) = Some parsed"
    and "parsedData.skills parsed = None \<or> parsedData.skills parsed = Some []"
  shows "job_recommendations uid db =
           (\<lparr>status = 200,
             body = \<lparr>res_success = True, res_recommendations = Some [],
                      res_userSkills = Some [], res_message = None\<rparr>\<rparr>,
            db\<lparr>queries := queries db @ [User_findById_query uid, Job_find_query]\<rparr>)
         \<and> length (recommendations [] (jobs db)) = length (jobs db)
         \<and> (\<forall>e\<in>set (recommendations [] (jobs db)). matchScore e = 0)
         \<and> filter (\<lambda>e. double (1 / 10) < matchScore e) (recommendations [] (jobs db)) = []"
proof (intro conjI)
  from assms(3) have "(case parsedData.skills parsed of None \<Rightarrow> [] | Some s \<Rightarrow> s) = []"
    by auto
  with assms(1,2) show "job_recommendations uid db =
           (\<lparr>status = 200,
             body = \<lparr>res_success = True, res_recommendations = Some [],
                      res_userSkills = Some [], res_message = None\<rparr>\<rparr>,
            db\<lparr>queries := queries db @ [User_findById_query uid, Job_find_query]\<rparr>)"
    by (simp add: job_recommendations_def User_findById_def Job_find_def
        topRecommendations_no_skills)
qed (rule recommendations_no_skills)+

theorem empty_resume_skills_no_message_witness:
  "job_recommendations ''u1''
     \<lparr>users = [''u1'' \<mapsto>
        (new_User ''Ann'' ''ann@example.com'' ''hash'' ''candidate'')
          \<lparr>profile := \<lparr>profile.skills = [], profile.experience = [], profile.education = [],
                        resumePath = None,
                        parsedResume = Some (mock_parsedData\<lparr>parsedData.skills := None\<rparr>)\<rparr>\<rparr>],
      jobs = sampleJobs, queries = []\<rparr>
   = (\<lparr>status = 200,
       body = \<lparr>res_success = True, res_recommendations = Some [],
                res_userSkills = Some [], res_message = None\<rparr>\<rparr>,
      \<lparr>users = [''u1'' \<mapsto>
        (new_User ''Ann'' ''ann@example.com'' ''hash'' ''candidate'')
          \<lparr>profile := \<lparr>profile.skills = [], profile.experience = [], profile.education = [],
                        resumePath = None,
                        parsedResume = Some (mock_parsedData\<lparr>parsedData.skills := None\<rparr>)\<rparr>\<rparr>],
       jobs = sampleJobs, queries = [User_findById_query ''u1'', Job_find_query]\<rparr>)
   \<and> length (recommendations [] sampleJobs) = length sampleJobs
   \<and> list_all (\<lambda>e. matchScore e = 0) (recommendations [] sampleJobs)
   \<and> filter (\<lambda>e. double (1 / 10) < matchScore e) (recommendations [] sampleJobs) = []"
proof -
  let ?p = "mock_parsedData\<lparr>parsedData.skills := None\<rparr>"
  let ?u = "(new_User ''Ann'' ''ann@example.com'' ''hash'' ''candidate'')
          \<lparr>profile := \<lparr>profile.skills = [], profile.experience = [], profile.education = [],
                        resumePath = None, parsedResume = Some ?p\<rparr>\<rparr>"
  let ?db = "\<lparr>users = [''u1'' \<mapsto> ?u], jobs = sampleJobs, queries = []\<rparr>"
  have "users ?db ''u1'' = Some ?u" by simp
  moreover have "parsedResume (profile ?u) = Some ?p" by simp
  moreover have "parsedData.skills ?p = None \<or> parsedData.skills ?p = Some []" by simp
  ultimately show ?thesis
    using empty_resume_skills_no_message [of ?db "''u1''" ?u ?p]
    unfolding list_all_iff by simp
qed

text \<open>
  C10. The entries of \<open>recommendations\<close> are, position by position, the stored jobs; every
  ranked entry is one of the stored jobs with all its fields, extended by exactly the two
  fields \<open>matchScore\<close> and \<open>matchPercentage\<close> computed from that job. The route leaves the
  user and job collections as they were, and the skills it reports are the stored ones.
\<close>

theorem recommendations_frame:
  "map job.truncate (recommendations userSkills allJobs) = allJobs
   \<and> (\<forall>e\<in>set (topRecommendations userSkills allJobs).
        job.truncate e \<in> set allJobs
      \<and> e = job.extend (job.truncate e)
              (recommendation.fields
                 (calculateMatchScore userSkills (job.skills (job.truncate e)))
                 (Math_round (Number_mul
                    (calculateMatchScore userSkills (job.skills (job.truncate e))) 100))))
   \<and> users (snd (job_recommendations uid db)) = users db
   \<and> jobs (snd (job_recommendations uid db)) = jobs db
   \<and> (users db uid = Some user \<and> parsedResume (profile user) = Some parsed
        \<and> parsedData.skills parsed = Some stored
      \<longrightarrow> res_userSkills (body (fst (job_recommendations uid db))) = Some stored)"
proof (intro conjI ballI impI)
  show "map job.truncate (recommendations userSkills allJobs) = allJobs"
    by (rule recommendations_jobs)
next
  fix e assume "e \<in> set (topRecommendations userSkills allJobs)"
  with topRecommendations_subset [of userSkills allJobs]
  have e: "e \<in> set (recommendations userSkills allJobs)" by auto
  then show "job.truncate e \<in> set allJobs" by (rule recommendations_entry)
  have sk: "job.skills (job.truncate e) = job.skills e" by (simp add: job.defs)
  from e have "matchScore e = calculateMatchScore userSkills (job.skills e)"
    and "matchPercentage e = Math_round (Number_mul (matchScore e) 100)"
    by (rule recommendations_entry)+
  with recommendation_split [of e]
  show "e = job.extend (job.truncate e)
              (recommendation.fields
                 (calculateMatchScore userSkills (job.skills (job.truncate e)))
                 (Math_round (Number_mul
                    (calculateMatchScore userSkills (job.skills (job.truncate e))) 100)))"
    by (simp only: sk)
next
  show "users (snd (job_recommendations uid db)) = users db"
    and "jobs (snd (job_recommendations uid db)) = jobs db"
    by (rule job_recommendations_collections)+
next
  assume "users db uid = Some user \<and> parsedResume (profile user) = Some parsed
        \<and> parsedData.skills parsed = Some stored"
  then have "users db uid = Some user" and "parsedResume (profile user) = Some parsed"
    and "parsedData.skills parsed = Some stored"
    by simp_all
  then show "res_userSkills (body (fst (job_recommendations uid db))) = Some stored"
    by (rule job_recommendations_userSkills)
qed

theorem recommendations_frame_witness:
  "map job.truncate
     (recommendations [''JavaScript'', ''React'', ''Node.js'', ''MongoDB'', ''Express'']
        sampleJobs) = sampleJobs
   \<and> list_all
       (\<lambda>e. job.truncate e \<in> set sampleJobs
          \<and> e = job.extend (job.truncate e)
                  (recommendation.fields
                     (calculateMatchScore
                        [''JavaScript'', ''React'', ''Node.js'', ''MongoDB'', ''Express'']
                        (job.skills (job.truncate e)))
                     (Math_round (Number_mul
                        (calculateMatchScore
                           [''JavaScript'', ''React'', ''Node.js'', ''MongoDB'', ''Express'']
                           (job.skills (job.truncate e))) 100))))
       (topRecommendations [''JavaScript'', ''React'', ''Node.js'', ''MongoDB'', ''Express'']
          sampleJobs)
   \<and> map oid
        (topRecommendations [''JavaScript'', ''React'', ''Node.js'', ''MongoDB'', ''Express'']
           sampleJobs) = [''3'', ''2'', ''1'']
   \<and> users (snd (job_recommendations ''u1''
         \<lparr>users = [''u1'' \<mapsto> upload_resume_update ''uploads/1.pdf''
                     (new_User ''Ann'' ''ann@example.com'' ''hash'' ''candidate'')],
          jobs = sampleJobs, queries = []\<rparr>))
       = [''u1'' \<mapsto> upload_resume_update ''uploads/1.pdf''
                     (new_User ''Ann'' ''ann@example.com'' ''hash'' ''candidate'')]
   \<and> jobs (snd (job_recommendations ''u1''
         \<lparr>users = [''u1'' \<mapsto> upload_resume_update ''uploads/1.pdf''
                     (new_User ''Ann'' ''ann@example.com'' ''hash'' ''candidate'')],
          jobs = sampleJobs, queries = []\<rparr>))
       = sampleJobs
   \<and> res_userSkills (body (fst (job_recommendations ''u1''
         \<lparr>users = [''u1'' \<mapsto> upload_resume_update ''uploads/1.pdf''
                     (new_User ''Ann'' ''ann@example.com'' ''hash'' ''candidate'')],
          jobs = sampleJobs, queries = []\<rparr>)))
       = Some [''JavaScript'', ''React'', ''Node.js'', ''MongoDB'', ''Express'']"
proof -
  let ?s = "[''JavaScript'', ''React'', ''Node.js'', ''MongoDB'', ''Express'']"
  let ?u = "upload_resume_update ''uploads/1.pdf''
              (new_User ''Ann'' ''ann@example.com'' ''hash'' ''candidate'')"
  let ?db = "\<lparr>users = [''u1'' \<mapsto> ?u], jobs = sampleJobs, queries = []\<rparr>"
  have h: "users ?db ''u1'' = Some ?u" "parsedResume (profile ?u) = Some mock_parsedData"
    "parsedData.skills mock_parsedData = Some ?s"
    by (simp_all add: upload_resume_update_def mock_parsedData_def)
  note f = recommendations_frame [of ?s sampleJobs "''u1''" ?db ?u mock_parsedData ?s]
  from f have a: "map job.truncate (recommendations ?s sampleJobs) = sampleJobs"
    by (rule conjunct1)
  from f have "\<forall>e\<in>set (topRecommendations ?s sampleJobs).
        job.truncate e \<in> set sampleJobs
      \<and> e = job.extend (job.truncate e)
              (recommendation.fields
                 (calculateMatchScore ?s (job.skills (job.truncate e)))
                 (Math_round (Number_mul
                    (calculateMatchScore ?s (job.skills (job.truncate e))) 100)))"
    by blast
  then have b: "list_all
       (\<lambda>e. job.truncate e \<in> set sampleJobs
          \<and> e = job.extend (job.truncate e)
                  (recommendation.fields
                     (calculateMatchScore ?s (job.skills (job.truncate e)))
                     (Math_round (Number_mul
                        (calculateMatchScore ?s (job.skills (job.truncate e))) 100))))
       (topRecommendations ?s sampleJobs)"
    by (simp only: list_all_iff)
  from f have "users (snd (job_recommendations ''u1'' ?db)) = users ?db"
    and "jobs (snd (job_recommendations ''u1'' ?db)) = jobs ?db"
    by blast+
  then have c: "users (snd (job_recommendations ''u1'' ?db)) = [''u1'' \<mapsto> ?u]"
    "jobs (snd (job_recommendations ''u1'' ?db)) = sampleJobs"
    by simp_all
  from f h have d: "res_userSkills (body (fst (job_recommendations ''u1'' ?db))) = Some ?s"
    by blast
  from a b c d topRecommendations_sample_columns(1) show ?thesis by (intro conjI)
qed

end
